theory Spec2Isabelle
  imports Main "HOL-Library.Monad_Syntax"
begin

section \<open>Dates\<close>

text \<open>
  A JavaScript \<open>Date\<close> holding a valid time is its time value: milliseconds since the
  epoch, UTC.  Comparing two dates with \<open><\<close>, \<open>>\<close>, \<open><=\<close>, \<open>>=\<close> compares the time
  values.  \<open>getDay\<close> reads the weekday in local time (Sunday = 0); the local offset
  \<open>tz\<close> (milliseconds east of UTC) is a parameter.
\<close>

type_synonym timestamp = int

definition msPerDay :: int where
  "msPerDay = 86400000"

definition localDay :: "int \<Rightarrow> timestamp \<Rightarrow> int" where
  "localDay tz t = (t + tz) div msPerDay"

definition getDay :: "int \<Rightarrow> timestamp \<Rightarrow> nat" where
  "getDay tz t = nat ((localDay tz t + 4) mod 7)"

section \<open>Data model (db/schema.ts)\<close>

datatype TrainType =
  Express | Local | Freight | SPIC | FTR | SALOON | TRC | Passenger
  | MailExpress | Superfast | Premium | Suburban | MEMU | DEMU

record importantStation =
  locationId :: int
  arrivalTime :: string
  departureTime :: string

text \<open>
  The fields that the request schema of \<open>POST /api/schedules\<close> produces
  (\<open>result.data\<close>).  A value that is \<open>null\<close> or \<open>undefined\<close> is \<open>None\<close>: the
  handler only tests such values for truthiness and the insert stores NULL for both.
\<close>

record scheduleData =
  trainId :: int
  departureLocationId :: int
  arrivalLocationId :: int
  scheduledDeparture :: timestamp
  scheduledArrival :: timestamp
  status :: string
  isCancelled :: bool
  runningDays :: "bool list"
  effectiveStartDate :: timestamp
  effectiveEndDate :: "timestamp option"
  detachLocationId :: "int option"
  attachLocationId :: "int option"
  detachTime :: "timestamp option"
  attachTime :: "timestamp option"
  attachTrainNumber :: "string option"
  attachStatus :: "string option"
  importantStations :: "importantStation list option"

text \<open>
  A row of the \<open>schedules\<close> table: the columns above and those the table adds.  The
  three references that the table leaves nullable and the request schema requires
  (\<open>trainId\<close>, \<open>departureLocationId\<close>, \<open>arrivalLocationId\<close>) are never null in a row
  written by the code below.
\<close>

record schedule = scheduleData +
  id' :: int
  actualDeparture :: "timestamp option"
  actualArrival :: "timestamp option"
  shortRouteLocationId :: "int option"
  remarks :: "string option"
  takingOverTime :: "timestamp option"
  handingOverTime :: "timestamp option"

record trainInfo =
  trainNumber :: string
  type' :: TrainType

text \<open>The \<open>Schedule\<close> interface of the client: a row with its optional train.\<close>

record scheduleWithTrain = schedule +
  train :: "trainInfo option"

section \<open>TimelineView.events (client/src/components/TimelineView.tsx)\<close>

datatype eventTitle =
  TitleTrain string TrainType   \<comment> \<open>\<open>Train <trainNumber> - <TYPE>\<close>\<close>
  | TitleTrainId int            \<comment> \<open>\<open>Train <trainId>\<close>\<close>

record event =
  eventId :: int
  title :: eventTitle
  start :: timestamp
  end' :: timestamp
  eventStatus :: string
  eventIsCancelled :: bool
  eventRunningDays :: "bool list"

text \<open>
  \<open>xs[i]\<close> used as a condition: an index past the end reads \<open>undefined\<close>, which is falsy.
\<close>

definition truthyAt :: "bool list \<Rightarrow> nat \<Rightarrow> bool" where
  "truthyAt xs i = (i < length xs \<and> xs ! i)"

definition currentDayOfWeek :: "int \<Rightarrow> timestamp \<Rightarrow> nat" where
  "currentDayOfWeek tz currentDate = (getDay tz currentDate + 6) mod 7"

text \<open>
  The callback of \<open>schedules.flatMap\<close>, with \<open>new Date()\<close> as the parameter
  \<open>currentDate\<close>: the empty list when the schedule is filtered out, one event otherwise.
\<close>

definition scheduleEvents :: "int \<Rightarrow> timestamp \<Rightarrow> 'a scheduleWithTrain_scheme \<Rightarrow> event list" where
  "scheduleEvents tz currentDate s =
     (let startDate = effectiveStartDate s;
          endDate = effectiveEndDate s
      in if startDate > currentDate
            \<or> (case endDate of None \<Rightarrow> False | Some e \<Rightarrow> e < currentDate)
            \<or> \<not> truthyAt (runningDays s) (currentDayOfWeek tz currentDate)
         then []
         else [\<lparr> eventId = id' s,
                 title = (case train s of
                            Some t \<Rightarrow> if trainNumber t \<noteq> [] then TitleTrain (trainNumber t) (type' t)
                                      else TitleTrainId (trainId s)
                          | None \<Rightarrow> TitleTrainId (trainId s)),
                 start = scheduledDeparture s,
                 end' = scheduledArrival s,
                 eventStatus = status s,
                 eventIsCancelled = isCancelled s,
                 eventRunningDays = runningDays s \<rparr>])"

definition events :: "int \<Rightarrow> timestamp \<Rightarrow> 'a scheduleWithTrain_scheme list \<Rightarrow> event list" where
  "events tz currentDate ss = concat (map (scheduleEvents tz currentDate) ss)"

text \<open>\<open>eventStyleGetter\<close>: the colour of an event; the later assignment wins.\<close>

definition backgroundColor :: "event \<Rightarrow> string" where
  "backgroundColor e =
     (if eventStatus e = ''cancelled'' \<or> eventIsCancelled e then ''#ef4444''
      else if eventStatus e = ''delayed'' then ''#f59e0b''
      else ''#22c55e'')"

text \<open>
  The schedule is active on the target date when the timeline shows an event for it.
\<close>

definition isActiveOn :: "int \<Rightarrow> 'a scheduleWithTrain_scheme \<Rightarrow> timestamp \<Rightarrow> bool" where
  "isActiveOn tz s d = (scheduleEvents tz d s \<noteq> [])"

section \<open>Request bodies and the schema library\<close>

text \<open>
  \<open>req.body\<close> is a decoded JSON object: a map from keys to JSON values, where an
  absent key reads \<open>undefined\<close> (\<open>None\<close>).  JSON numbers are integers here, as the
  identifier columns are.  A schema takes the path of the value and the value, and
  returns the issues it raises together with the parsed value; the value is \<open>None\<close>
  when parsing that value was abandoned.  An issue carries the message the source
  gives, and the empty message where the library supplies its own.
\<close>

datatype json =
  JNull | JBool bool | JNum int | JStr string | JArr "json list" | JObj "(string \<times> json) list"

type_synonym body = "string \<rightharpoonup> json"

datatype pathElem = Key string | Idx nat

datatype issueCode = invalid_type | invalid_date | invalid_enum_value | too_small | too_big | custom

datatype issue = Issue issueCode "pathElem list" string

type_synonym 'a parsed = "issue list \<times> 'a option"

definition zNumber :: "pathElem list \<Rightarrow> json option \<Rightarrow> int parsed" where
  "zNumber p v = (case v of Some (JNum n) \<Rightarrow> ([], Some n) | _ \<Rightarrow> ([Issue invalid_type p []], None))"

definition zMin :: "int \<Rightarrow> string \<Rightarrow> (pathElem list \<Rightarrow> json option \<Rightarrow> int parsed)
    \<Rightarrow> pathElem list \<Rightarrow> json option \<Rightarrow> int parsed" where
  "zMin m msg inner p v =
     (case inner p v of
        (is, Some n) \<Rightarrow> (if m \<le> n then (is, Some n) else (is @ [Issue too_small p msg], Some n))
      | (is, None) \<Rightarrow> (is, None))"

definition zString :: "pathElem list \<Rightarrow> json option \<Rightarrow> string parsed" where
  "zString p v = (case v of Some (JStr s) \<Rightarrow> ([], Some s) | _ \<Rightarrow> ([Issue invalid_type p []], None))"

definition zBoolean :: "pathElem list \<Rightarrow> json option \<Rightarrow> bool parsed" where
  "zBoolean p v = (case v of Some (JBool b) \<Rightarrow> ([], Some b) | _ \<Rightarrow> ([Issue invalid_type p []], None))"

definition zEnum :: "string list \<Rightarrow> pathElem list \<Rightarrow> json option \<Rightarrow> string parsed" where
  "zEnum values p v =
     (case v of
        Some (JStr s) \<Rightarrow> if s \<in> set values then ([], Some s) else ([Issue invalid_enum_value p []], None)
      | _ \<Rightarrow> ([Issue invalid_type p []], None))"

text \<open>
  \<open>new Date(v)\<close>: the time value, or \<open>None\<close> for an Invalid Date.  How the platform
  reads a string (or an array or object, through its string form) is the parameter
  \<open>dateParse\<close>.
\<close>

definition maxTime :: int where
  "maxTime = 8640000000000000"

definition newDate :: "(json \<Rightarrow> timestamp option) \<Rightarrow> json option \<Rightarrow> timestamp option" where
  "newDate dateParse v =
     (case v of
        None \<Rightarrow> None
      | Some JNull \<Rightarrow> Some 0
      | Some (JBool b) \<Rightarrow> Some (if b then 1 else 0)
      | Some (JNum n) \<Rightarrow> if \<bar>n\<bar> \<le> maxTime then Some n else None
      | Some j \<Rightarrow> dateParse j)"

definition zCoerceDate :: "(json \<Rightarrow> timestamp option) \<Rightarrow> pathElem list \<Rightarrow> json option \<Rightarrow> timestamp parsed" where
  "zCoerceDate dateParse p v =
     (case newDate dateParse v of Some t \<Rightarrow> ([], Some t) | None \<Rightarrow> ([Issue invalid_date p []], None))"

definition zNullableOptional :: "(pathElem list \<Rightarrow> json option \<Rightarrow> 'a parsed) \<Rightarrow> pathElem list \<Rightarrow> json option \<Rightarrow> 'a option parsed" where
  "zNullableOptional inner p v =
     (case v of
        None \<Rightarrow> ([], Some None)
      | Some JNull \<Rightarrow> ([], Some None)
      | _ \<Rightarrow> (case inner p v of (is, r) \<Rightarrow> (is, map_option Some r)))"

definition zOptional :: "(pathElem list \<Rightarrow> json option \<Rightarrow> 'a parsed) \<Rightarrow> pathElem list \<Rightarrow> json option \<Rightarrow> 'a option parsed" where
  "zOptional inner p v =
     (case v of
        None \<Rightarrow> ([], Some None)
      | _ \<Rightarrow> (case inner p v of (is, r) \<Rightarrow> (is, map_option Some r)))"

definition zDefault :: "json \<Rightarrow> (pathElem list \<Rightarrow> json option \<Rightarrow> 'a parsed) \<Rightarrow> pathElem list \<Rightarrow> json option \<Rightarrow> 'a parsed" where
  "zDefault dflt inner p v = inner p (case v of None \<Rightarrow> Some dflt | _ \<Rightarrow> v)"

fun zItems :: "(pathElem list \<Rightarrow> json option \<Rightarrow> 'a parsed) \<Rightarrow> pathElem list \<Rightarrow> nat \<Rightarrow> json list \<Rightarrow> 'a list parsed" where
  "zItems elem p i [] = ([], Some [])"
| "zItems elem p i (x # xs) =
     (case (elem (p @ [Idx i]) (Some x), zItems elem p (Suc i) xs) of
        ((is1, v1), (is2, v2)) \<Rightarrow>
          (is1 @ is2, case (v1, v2) of (Some a, Some as) \<Rightarrow> Some (a # as) | _ \<Rightarrow> None))"

definition zArray :: "nat option \<Rightarrow> (pathElem list \<Rightarrow> json option \<Rightarrow> 'a parsed) \<Rightarrow> pathElem list \<Rightarrow> json option \<Rightarrow> 'a list parsed" where
  "zArray exactLength elem p v =
     (case v of
        Some (JArr xs) \<Rightarrow>
          (case zItems elem p 0 xs of
             (is, r) \<Rightarrow>
               ((case exactLength of
                   None \<Rightarrow> []
                 | Some n \<Rightarrow> if n < length xs then [Issue too_big p []]
                             else if length xs < n then [Issue too_small p []] else []) @ is, r))
      | _ \<Rightarrow> ([Issue invalid_type p []], None))"

definition zStation :: "pathElem list \<Rightarrow> json option \<Rightarrow> importantStation parsed" where
  "zStation p v =
     (case v of
        Some (JObj kvs) \<Rightarrow>
          (case (zNumber (p @ [Key ''locationId'']) (map_of kvs ''locationId''),
                 zString (p @ [Key ''arrivalTime'']) (map_of kvs ''arrivalTime''),
                 zString (p @ [Key ''departureTime'']) (map_of kvs ''departureTime'')) of
             ((is1, l), (is2, a), (is3, d)) \<Rightarrow>
               (is1 @ is2 @ is3,
                case (l, a, d) of
                  (Some l', Some a', Some d') \<Rightarrow>
                    Some \<lparr> locationId = l', arrivalTime = a', departureTime = d' \<rparr>
                | _ \<Rightarrow> None))
      | _ \<Rightarrow> ([Issue invalid_type p []], None))"

section \<open>POST /api/schedules (server/routes.ts)\<close>

definition refineDetachTime :: "'a scheduleData_scheme \<Rightarrow> issue list" where
  "refineDetachTime d =
     (case detachTime d of
        Some t \<Rightarrow>
          if scheduledDeparture d \<le> t \<and> t \<le> scheduledArrival d then []
          else [Issue custom [Key ''detachTime'']
                  ''Detach time must be between departure and arrival times'']
      | None \<Rightarrow> [])"

definition refineAttachTime :: "'a scheduleData_scheme \<Rightarrow> issue list" where
  "refineAttachTime d =
     (case attachTime d of
        Some t \<Rightarrow>
          if scheduledDeparture d \<le> t \<and> t \<le> scheduledArrival d then []
          else [Issue custom [Key ''attachTime'']
                  ''Attach time must be between departure and arrival times'']
      | None \<Rightarrow> [])"

text \<open>The fields of \<open>z.object({...})\<close>, each parsed at its key, in the source's order.\<close>

definition fTrainId :: "body \<Rightarrow> int parsed" where
  "fTrainId b = zMin 1 ''Train selection is required'' zNumber [Key ''trainId''] (b ''trainId'')"

definition fDepartureLocationId :: "body \<Rightarrow> int parsed" where
  "fDepartureLocationId b =
     zMin 1 ''Departure location is required'' zNumber [Key ''departureLocationId'']
       (b ''departureLocationId'')"

definition fArrivalLocationId :: "body \<Rightarrow> int parsed" where
  "fArrivalLocationId b =
     zMin 1 ''Arrival location is required'' zNumber [Key ''arrivalLocationId'']
       (b ''arrivalLocationId'')"

definition fStatus :: "body \<Rightarrow> string parsed" where
  "fStatus b =
     zDefault (JStr ''scheduled'') (zEnum [''scheduled'', ''delayed'', ''completed'', ''cancelled''])
       [Key ''status''] (b ''status'')"

definition fIsCancelled :: "body \<Rightarrow> bool parsed" where
  "fIsCancelled b = zDefault (JBool False) zBoolean [Key ''isCancelled''] (b ''isCancelled'')"

definition fRunningDays :: "body \<Rightarrow> bool list parsed" where
  "fRunningDays b =
     zDefault (JArr (replicate 7 (JBool True))) (zArray (Some 7) zBoolean)
       [Key ''runningDays''] (b ''runningDays'')"

definition fDate :: "(json \<Rightarrow> timestamp option) \<Rightarrow> string \<Rightarrow> body \<Rightarrow> timestamp parsed" where
  "fDate dateParse k b = zCoerceDate dateParse [Key k] (b k)"

definition fDateOpt :: "(json \<Rightarrow> timestamp option) \<Rightarrow> string \<Rightarrow> body \<Rightarrow> timestamp option parsed" where
  "fDateOpt dateParse k b = zNullableOptional (zCoerceDate dateParse) [Key k] (b k)"

definition fNumberOpt :: "string \<Rightarrow> body \<Rightarrow> int option parsed" where
  "fNumberOpt k b = zNullableOptional zNumber [Key k] (b k)"

definition fAttachTrainNumber :: "body \<Rightarrow> string option parsed" where
  "fAttachTrainNumber b = zNullableOptional zString [Key ''attachTrainNumber''] (b ''attachTrainNumber'')"

definition fAttachStatus :: "body \<Rightarrow> string option parsed" where
  "fAttachStatus b =
     zNullableOptional (zEnum [''pending'', ''completed'', ''cancelled''])
       [Key ''attachStatus''] (b ''attachStatus'')"

definition fImportantStations :: "body \<Rightarrow> importantStation list option parsed" where
  "fImportantStations b =
     zOptional (zArray None zStation) [Key ''importantStations''] (b ''importantStations'')"

definition objectIssues :: "(json \<Rightarrow> timestamp option) \<Rightarrow> body \<Rightarrow> issue list" where
  "objectIssues dp b =
     fst (fTrainId b) @ fst (fDepartureLocationId b) @ fst (fArrivalLocationId b)
     @ fst (fDate dp ''scheduledDeparture'' b) @ fst (fDate dp ''scheduledArrival'' b)
     @ fst (fStatus b) @ fst (fIsCancelled b) @ fst (fRunningDays b)
     @ fst (fDate dp ''effectiveStartDate'' b) @ fst (fDateOpt dp ''effectiveEndDate'' b)
     @ fst (fNumberOpt ''detachLocationId'' b) @ fst (fNumberOpt ''attachLocationId'' b)
     @ fst (fDateOpt dp ''detachTime'' b) @ fst (fDateOpt dp ''attachTime'' b)
     @ fst (fAttachTrainNumber b) @ fst (fAttachStatus b) @ fst (fImportantStations b)"

definition objectValue :: "(json \<Rightarrow> timestamp option) \<Rightarrow> body \<Rightarrow> scheduleData option" where
  "objectValue dp b =
     do {
       v1 \<leftarrow> snd (fTrainId b);
       v2 \<leftarrow> snd (fDepartureLocationId b);
       v3 \<leftarrow> snd (fArrivalLocationId b);
       v4 \<leftarrow> snd (fDate dp ''scheduledDeparture'' b);
       v5 \<leftarrow> snd (fDate dp ''scheduledArrival'' b);
       v6 \<leftarrow> snd (fStatus b);
       v7 \<leftarrow> snd (fIsCancelled b);
       v8 \<leftarrow> snd (fRunningDays b);
       v9 \<leftarrow> snd (fDate dp ''effectiveStartDate'' b);
       v10 \<leftarrow> snd (fDateOpt dp ''effectiveEndDate'' b);
       v11 \<leftarrow> snd (fNumberOpt ''detachLocationId'' b);
       v12 \<leftarrow> snd (fNumberOpt ''attachLocationId'' b);
       v13 \<leftarrow> snd (fDateOpt dp ''detachTime'' b);
       v14 \<leftarrow> snd (fDateOpt dp ''attachTime'' b);
       v15 \<leftarrow> snd (fAttachTrainNumber b);
       v16 \<leftarrow> snd (fAttachStatus b);
       v17 \<leftarrow> snd (fImportantStations b);
       Some \<lparr> trainId = v1, departureLocationId = v2, arrivalLocationId = v3,
              scheduledDeparture = v4, scheduledArrival = v5, status = v6,
              isCancelled = v7, runningDays = v8, effectiveStartDate = v9,
              effectiveEndDate = v10, detachLocationId = v11, attachLocationId = v12,
              detachTime = v13, attachTime = v14, attachTrainNumber = v15,
              attachStatus = v16, importantStations = v17 \<rparr>
     }"

text \<open>
  \<open>scheduleSchema.safeParse(req.body)\<close>: the two refinements run on the parsed object
  unless its parsing was abandoned; the parse succeeds when no issue was raised.
\<close>

definition scheduleSchema :: "(json \<Rightarrow> timestamp option) \<Rightarrow> body \<Rightarrow> issue list + scheduleData" where
  "scheduleSchema dp b =
     (case objectValue dp b of
        None \<Rightarrow> Inl (objectIssues dp b)
      | Some d \<Rightarrow>
          (let issues = objectIssues dp b @ refineDetachTime d @ refineAttachTime d
           in if issues = [] then Inr d else Inl issues))"

subsection \<open>The store\<close>

record location =
  name :: string
  code :: string

record database =
  trains :: "int \<rightharpoonup> trainInfo"
  locations :: "int \<rightharpoonup> location"
  schedules :: "schedule list"
  nextId :: int

text \<open>
  Inserting a row: the foreign keys of \<open>schedules\<close> (db/schema.ts) and the range checks
  on the attach and detach times (migrations/0002_add_attachment_fields.ts) hold, or
  the insert throws.  The new row gets the next identity value, \<open>importantStations\<close>
  its column default \<open>[]\<close> when the request gave none, and the columns that the request
  cannot set are NULL.
\<close>

definition references :: "database \<Rightarrow> int option \<Rightarrow> bool" where
  "references db v = (case v of None \<Rightarrow> True | Some i \<Rightarrow> locations db i \<noteq> None)"

definition timeInRange :: "'a scheduleData_scheme \<Rightarrow> timestamp option \<Rightarrow> bool" where
  "timeInRange d v =
     (case v of None \<Rightarrow> True | Some t \<Rightarrow> scheduledDeparture d \<le> t \<and> t \<le> scheduledArrival d)"

definition insertSchedule :: "database \<Rightarrow> scheduleData \<Rightarrow> (schedule \<times> database) option" where
  "insertSchedule db d =
     (if trains db (trainId d) \<noteq> None
         \<and> references db (Some (departureLocationId d))
         \<and> references db (Some (arrivalLocationId d))
         \<and> references db (detachLocationId d)
         \<and> references db (attachLocationId d)
         \<and> timeInRange d (attachTime d)
         \<and> timeInRange d (detachTime d)
      then (let row = scheduleData.extend
                        (d\<lparr> importantStations :=
                             (case importantStations d of None \<Rightarrow> Some [] | Some l \<Rightarrow> Some l) \<rparr>)
                        (schedule.fields (nextId db) None None None None None None)
            in Some (row, db\<lparr> schedules := schedules db @ [row], nextId := nextId db + 1 \<rparr>))
      else None)"

subsection \<open>The handler\<close>

datatype response =
  InvalidScheduleData "issue list"    \<comment> \<open>400, \<open>error: "Invalid schedule data"\<close>, the issues\<close>
  | ErrorResponse nat string string   \<comment> \<open>status, \<open>error\<close>, \<open>message\<close>\<close>
  | FailedToCreate                    \<comment> \<open>500, \<open>error: "Failed to create schedule"\<close>\<close>
  | Success scheduleWithTrain         \<comment> \<open>200, \<open>success: true\<close>, the row with its train\<close>



text \<open>Truthiness of a number, a string and a date that may be null or undefined.\<close>

definition truthyNumber :: "int option \<Rightarrow> bool" where
  "truthyNumber v = (case v of None \<Rightarrow> False | Some n \<Rightarrow> n \<noteq> 0)"

definition truthyString :: "string option \<Rightarrow> bool" where
  "truthyString v = (case v of None \<Rightarrow> False | Some s \<Rightarrow> s \<noteq> [])"

definition truthyDate :: "timestamp option \<Rightarrow> bool" where
  "truthyDate v = (case v of None \<Rightarrow> False | Some t \<Rightarrow> True)"

text \<open>
  The checks between the train lookup and the insert; \<open>Some\<close> is the response of an
  early return.
\<close>

definition attachValidation :: "database \<Rightarrow> scheduleData \<Rightarrow> response option" where
  "attachValidation db d =
     (if truthyNumber (attachLocationId d) \<or> truthyString (attachTrainNumber d)
         \<or> truthyDate (attachTime d)
      then
        if \<not> truthyNumber (attachLocationId d) \<or> \<not> truthyString (attachTrainNumber d)
           \<or> \<not> truthyDate (attachTime d)
        then Some (ErrorResponse 400 ''Invalid attach configuration''
               ''When specifying attach operations, all fields (location, train number, and time) are required'')
        else if \<not> references db (attachLocationId d)
        then Some (ErrorResponse 404 ''Invalid attach location''
               ''The specified attach location does not exist'')
        else None
      else None)"

definition detachValidation :: "database \<Rightarrow> scheduleData \<Rightarrow> response option" where
  "detachValidation db d =
     (if truthyNumber (detachLocationId d) \<or> truthyDate (detachTime d)
      then
        if \<not> truthyNumber (detachLocationId d) \<or> \<not> truthyDate (detachTime d)
        then Some (ErrorResponse 400 ''Invalid detach configuration''
               ''When specifying detach operations, both location and time are required'')
        else if \<not> references db (detachLocationId d)
        then Some (ErrorResponse 404 ''Invalid detach location''
               ''The specified detach location does not exist'')
        else None
      else None)"

definition specialOperations :: "database \<Rightarrow> trainInfo \<Rightarrow> scheduleData \<Rightarrow> response option" where
  "specialOperations db t d =
     (if type' t = SALOON \<or> type' t = FTR
      then (case attachValidation db d of
              Some r \<Rightarrow> Some r
            | None \<Rightarrow> detachValidation db d)
      else if truthyNumber (attachLocationId d) \<or> truthyNumber (detachLocationId d)
              \<or> truthyString (attachTrainNumber d)
      then Some (ErrorResponse 400 ''Invalid train type for attach/detach operations''
             ''Attach and detach operations are only available for SALOON and FTR trains'')
      else None)"

definition postSchedules :: "(json \<Rightarrow> timestamp option) \<Rightarrow> database \<Rightarrow> body \<Rightarrow> response \<times> database" where
  "postSchedules dp db b =
     (case scheduleSchema dp b of
        Inl issues \<Rightarrow> (InvalidScheduleData issues, db)
      | Inr d \<Rightarrow>
          (case trains db (trainId d) of
             None \<Rightarrow> (ErrorResponse 404 ''Train not found'' ''The specified train does not exist'', db)
           | Some t \<Rightarrow>
               (case specialOperations db t d of
                  Some r \<Rightarrow> (r, db)
                | None \<Rightarrow>
                    (let scheduleData =
                           d\<lparr> attachStatus :=
                                (if truthyString (attachTrainNumber d) then Some ''pending'' else None) \<rparr>
                     in case insertSchedule db scheduleData of
                          None \<Rightarrow> (FailedToCreate, db)
                        | Some (newSchedule, db') \<Rightarrow>
                            (Success (schedule.extend newSchedule (scheduleWithTrain.fields (Some t))),
                             db')))))"

section \<open>The updateSchedule socket event (setupWebSocket, server/websocket.ts)\<close>

text \<open>
  The payload of the event.  An optional key that is absent (\<open>undefined\<close>) and one that is
  \<open>null\<close> differ for the three columns that the handler passes on as they are: the
  update leaves a column alone for \<open>undefined\<close> (\<open>None\<close>) and writes NULL for \<open>null\<close>
  (\<open>Some None\<close>).  The four date strings are only tested for truthiness, so \<open>None\<close>
  stands for both.
\<close>

record updateScheduleData =
  dataId :: int
  dataStatus :: string
  dataActualDeparture :: "string option"
  dataActualArrival :: "string option"
  dataAttachTrainNumber :: "string option option"
  dataAttachTime :: "string option"
  dataAttachStatus :: "string option option"
  dataDetachLocationId :: "int option option"
  dataDetachTime :: "string option"

text \<open>
  \<open>v ? new Date(v) : null\<close>.  The outer \<open>None\<close> is an Invalid Date, which the update
  cannot write: it throws.
\<close>

definition dateOrNull :: "(json \<Rightarrow> timestamp option) \<Rightarrow> string option \<Rightarrow> timestamp option option" where
  "dateOrNull dp v =
     (case v of
        None \<Rightarrow> Some None
      | Some s \<Rightarrow> if s = [] then Some None else map_option Some (dp (JStr s)))"

definition setOrKeep :: "'a option \<Rightarrow> 'a \<Rightarrow> 'a" where
  "setOrKeep v old = (case v of None \<Rightarrow> old | Some x \<Rightarrow> x)"

text \<open>The \<open>set({...})\<close> of the update, as a function on the row; \<open>None\<close> when it throws.\<close>

definition setValues ::
    "(json \<Rightarrow> timestamp option) \<Rightarrow> updateScheduleData \<Rightarrow> (schedule \<Rightarrow> schedule) option" where
  "setValues dp data =
     do {
       departure \<leftarrow> dateOrNull dp (dataActualDeparture data);
       arrival \<leftarrow> dateOrNull dp (dataActualArrival data);
       attach \<leftarrow> dateOrNull dp (dataAttachTime data);
       detach \<leftarrow> dateOrNull dp (dataDetachTime data);
       Some (\<lambda>r. r\<lparr> status := dataStatus data,
                      actualDeparture := departure,
                      actualArrival := arrival,
                      attachTrainNumber := setOrKeep (dataAttachTrainNumber data) (attachTrainNumber r),
                      attachTime := attach,
                      attachStatus := setOrKeep (dataAttachStatus data) (attachStatus r),
                      detachLocationId := setOrKeep (dataDetachLocationId data) (detachLocationId r),
                      detachTime := detach \<rparr>)
     }"

text \<open>
  What the table enforces on a written row: the reference of \<open>detachLocationId\<close> and the
  two range checks of the migration.
\<close>

definition rowAllowed :: "database \<Rightarrow> schedule \<Rightarrow> bool" where
  "rowAllowed db r =
     (references db (detachLocationId r) \<and> timeInRange r (attachTime r)
      \<and> timeInRange r (detachTime r))"

text \<open>
  The handler: every row with the payload's id is updated, and the first updated row is
  broadcast as \<open>scheduleUpdated\<close> (the first component; \<open>None\<close> when nothing is sent).
  An error is caught and logged: nothing is written and nothing is sent.  The current
  status of the row is not read.
\<close>

definition updateSchedule ::
    "(json \<Rightarrow> timestamp option) \<Rightarrow> database \<Rightarrow> updateScheduleData \<Rightarrow> schedule option \<times> database" where
  "updateSchedule dp db data =
     (case setValues dp data of
        None \<Rightarrow> (None, db)
      | Some f \<Rightarrow>
          (let updated = map f (filter (\<lambda>r. id' r = dataId data) (schedules db))
           in if list_all (rowAllowed db) updated
              then (case updated of [] \<Rightarrow> None | u # us \<Rightarrow> Some u,
                    db\<lparr> schedules :=
                          map (\<lambda>r. if id' r = dataId data then f r else r) (schedules db) \<rparr>)
              else (None, db)))"

section \<open>TrainControls (client/src/components)\<close>

text \<open>
  The schedule whose status the Start, Delay and Complete buttons change: the first one
  that is neither cancelled nor completed.
\<close>

definition selectedSchedule :: "'a schedule_scheme list \<Rightarrow> 'a schedule_scheme option" where
  "selectedSchedule ss = find (\<lambda>s. \<not> isCancelled s \<and> status s \<noteq> ''completed'') ss"

section \<open>Example data\<close>

text \<open>
  The schedule of the specification's examples: departure 2024-03-04T08:00Z
  (1709539200000), arrival 2024-03-04T14:00Z (1709560800000), running on Mondays only,
  effective from 2024-03-01T00:00Z (1709251200000), no end date; as a stored row with
  identity 1.
\<close>

definition exampleSchedule :: scheduleWithTrain where
  "exampleSchedule =
     \<lparr> trainId = 1, departureLocationId = 1, arrivalLocationId = 2,
       scheduledDeparture = 1709539200000, scheduledArrival = 1709560800000,
       status = ''scheduled'', isCancelled = False,
       runningDays = [True, False, False, False, False, False, False],
       effectiveStartDate = 1709251200000, effectiveEndDate = None,
       detachLocationId = None, attachLocationId = None, detachTime = None,
       attachTime = None, attachTrainNumber = None, attachStatus = None,
       importantStations = Some [],
       id' = 1, actualDeparture = None, actualArrival = None,
       shortRouteLocationId = None, remarks = None, takingOverTime = None,
       handingOverTime = None,
       train = None \<rparr>"

text \<open>A store with an express, an FTR and a SALOON train, three locations and no schedule.\<close>

definition express12301 :: trainInfo where
  "express12301 = \<lparr> trainNumber = ''12301'', type' = Express \<rparr>"

definition ftr00901 :: trainInfo where
  "ftr00901 = \<lparr> trainNumber = ''00901'', type' = FTR \<rparr>"

definition exampleDb :: database where
  "exampleDb =
     \<lparr> trains = [1 \<mapsto> express12301, 2 \<mapsto> ftr00901,
                 3 \<mapsto> \<lparr> trainNumber = ''00902'', type' = SALOON \<rparr>],
       locations = [1 \<mapsto> \<lparr> name = ''Secunderabad'', code = ''SC'' \<rparr>,
                    2 \<mapsto> \<lparr> name = ''Vijayawada'', code = ''BZA'' \<rparr>,
                    5 \<mapsto> \<lparr> name = ''Kazipet'', code = ''KZJ'' \<rparr>],
       schedules = [],
       nextId = 1 \<rparr>"

text \<open>The request body that creates the example schedule for the express train.\<close>

definition exampleBody :: body where
  "exampleBody =
     [''trainId'' \<mapsto> JNum 1,
      ''departureLocationId'' \<mapsto> JNum 1,
      ''arrivalLocationId'' \<mapsto> JNum 2,
      ''scheduledDeparture'' \<mapsto> JNum 1709539200000,
      ''scheduledArrival'' \<mapsto> JNum 1709560800000,
      ''runningDays'' \<mapsto> JArr [JBool True, JBool False, JBool False, JBool False,
                                JBool False, JBool False, JBool False],
      ''effectiveStartDate'' \<mapsto> JNum 1709251200000]"

text \<open>
  The same journey for the FTR train with an attach location and an attach time
  (2024-03-04T10:00Z) but no attach train number.
\<close>

definition ftrBody :: body where
  "ftrBody =
     exampleBody(''trainId'' \<mapsto> JNum 2, ''attachLocationId'' \<mapsto> JNum 5,
                 ''attachTime'' \<mapsto> JNum 1709546400000)"

text \<open>The payload \<open>{id, status}\<close>, with no optional key.\<close>

definition statusOnly :: "int \<Rightarrow> string \<Rightarrow> updateScheduleData" where
  "statusOnly i s =
     \<lparr> dataId = i, dataStatus = s, dataActualDeparture = None, dataActualArrival = None,
       dataAttachTrainNumber = None, dataAttachTime = None, dataAttachStatus = None,
       dataDetachLocationId = None, dataDetachTime = None \<rparr>"

text \<open>No request of the examples carries a date as a string.\<close>

definition noDateParse :: "json \<Rightarrow> timestamp option" where
  "noDateParse j = None"

section \<open>Evaluation rules\<close>

lemmas date_defs = getDay_def localDay_def msPerDay_def currentDayOfWeek_def truthyAt_def

lemmas schema_defs =
  scheduleSchema_def objectValue_def objectIssues_def fTrainId_def fDepartureLocationId_def
  fArrivalLocationId_def fStatus_def fIsCancelled_def fRunningDays_def fDate_def fDateOpt_def
  fNumberOpt_def fAttachTrainNumber_def fAttachStatus_def fImportantStations_def
  zMin_def zNumber_def zString_def zBoolean_def zEnum_def zCoerceDate_def newDate_def
  maxTime_def zNullableOptional_def zOptional_def zDefault_def zArray_def zStation_def
  refineDetachTime_def refineAttachTime_def

lemmas handler_defs =
  postSchedules_def specialOperations_def attachValidation_def detachValidation_def
  insertSchedule_def references_def timeInRange_def truthyNumber_def truthyString_def
  truthyDate_def Let_def scheduleData.defs schedule.defs scheduleWithTrain.defs

lemmas example_defs =
  exampleSchedule_def exampleBody_def ftrBody_def exampleDb_def express12301_def ftr00901_def
  noDateParse_def

section \<open>The timeline filter\<close>

lemma scheduleEvents_Nil:
  "scheduleEvents tz d s = [] \<longleftrightarrow>
     (effectiveStartDate s > d
      \<or> (case effectiveEndDate s of None \<Rightarrow> False | Some e \<Rightarrow> e < d)
      \<or> \<not> truthyAt (runningDays s) (currentDayOfWeek tz d))"
  by (simp add: scheduleEvents_def Let_def)

lemma localDay_less: "localDay tz a < localDay tz b \<Longrightarrow> a < b"
proof (rule ccontr)
  assume l: "localDay tz a < localDay tz b" and "\<not> a < b"
  then have "b + tz \<le> a + tz" by simp
  then have "(b + tz) div msPerDay \<le> (a + tz) div msPerDay"
    by (rule zdiv_mono1) (simp add: msPerDay_def)
  with l show False by (simp add: localDay_def)
qed

lemma getDay_less_7: "getDay tz d < 7"
  by (simp add: getDay_def)

text \<open>
  C1, as claimed, fails: the specification's example schedule, cancelled, still yields
  its event on Monday 2024-03-04 at 08:00Z.
\<close>

theorem cancelled_schedule_still_active:
  "isCancelled (exampleSchedule\<lparr> isCancelled := True \<rparr>)
   \<and> isActiveOn 0 (exampleSchedule\<lparr> isCancelled := True \<rparr>) 1709539200000"
  by (simp add: isActiveOn_def scheduleEvents_def exampleSchedule_def date_defs)

text \<open>
  C1, amended: the timeline filter does not read \<open>isCancelled\<close>.  A cancelled schedule is
  active on exactly the dates on which it would be active if it were not cancelled; the
  event it yields carries the flag, and the calendar colours the event of a cancelled
  schedule red.
\<close>

theorem isActiveOn_ignores_isCancelled:
  "isActiveOn tz (s\<lparr> isCancelled := c \<rparr>) d = isActiveOn tz s d
   \<and> map eventIsCancelled (scheduleEvents tz d s) = map (\<lambda>e. isCancelled s) (scheduleEvents tz d s)
   \<and> (isCancelled s \<longrightarrow>
        map backgroundColor (scheduleEvents tz d s) = map (\<lambda>e. ''#ef4444'') (scheduleEvents tz d s))"
  by (simp add: isActiveOn_def scheduleEvents_def backgroundColor_def Let_def)

theorem isActiveOn_ignores_isCancelled_witness:
  "isActiveOn 0 (exampleSchedule\<lparr> isCancelled := True \<rparr>) 1709539200000
     = isActiveOn 0 exampleSchedule 1709539200000
   \<and> map eventIsCancelled (scheduleEvents 0 1709539200000 (exampleSchedule\<lparr> isCancelled := True \<rparr>))
     = [True]
   \<and> map backgroundColor (scheduleEvents 0 1709539200000 (exampleSchedule\<lparr> isCancelled := True \<rparr>))
     = [''#ef4444'']"
  using isActiveOn_ignores_isCancelled
    [where tz = 0 and s = "exampleSchedule\<lparr> isCancelled := True \<rparr>" and c = True
       and d = 1709539200000]
  by (simp add: isActiveOn_def scheduleEvents_def backgroundColor_def exampleSchedule_def date_defs)

text \<open>
  C3, as claimed, fails on the first and on the last day of the effective window.  With
  \<open>effectiveStartDate\<close> 2024-03-04T12:00Z, the target 2024-03-04T08:00Z lies on the start
  date, a Monday on which the schedule runs, and is inactive.  With \<open>effectiveEndDate\<close>
  2024-03-10T00:00Z on a schedule that runs every day, the target 2024-03-10T15:00Z lies
  on the end date and is inactive.  With \<open>effectiveStartDate\<close> 2024-03-04T00:00Z read at
  UTC+5:30, the target 01:30 local time of that Monday is inactive.  None of the three
  schedules is cancelled.
\<close>

theorem isActiveOn_time_of_day_counts:
  "\<not> isCancelled (exampleSchedule\<lparr> effectiveStartDate := 1709553600000 \<rparr>)
   \<and> localDay 0 (effectiveStartDate (exampleSchedule\<lparr> effectiveStartDate := 1709553600000 \<rparr>))
       = localDay 0 1709539200000
   \<and> effectiveEndDate (exampleSchedule\<lparr> effectiveStartDate := 1709553600000 \<rparr>) = None
   \<and> runningDays (exampleSchedule\<lparr> effectiveStartDate := 1709553600000 \<rparr>)
       ! currentDayOfWeek 0 1709539200000
   \<and> \<not> isActiveOn 0 (exampleSchedule\<lparr> effectiveStartDate := 1709553600000 \<rparr>) 1709539200000
   \<and> \<not> isCancelled (exampleSchedule\<lparr> runningDays := [True, True, True, True, True, True, True],
                                        effectiveEndDate := Some 1710028800000 \<rparr>)
   \<and> localDay 0 (effectiveStartDate exampleSchedule) < localDay 0 1710082800000
   \<and> localDay 0 1710082800000 = localDay 0 1710028800000
   \<and> [True, True, True, True, True, True, True] ! currentDayOfWeek 0 1710082800000
   \<and> \<not> isActiveOn 0 (exampleSchedule\<lparr> runningDays := [True, True, True, True, True, True, True],
                                          effectiveEndDate := Some 1710028800000 \<rparr>) 1710082800000
   \<and> localDay 19800000 (effectiveStartDate (exampleSchedule\<lparr> effectiveStartDate := 1709510400000 \<rparr>))
       = localDay 19800000 1709496000000
   \<and> runningDays exampleSchedule ! currentDayOfWeek 19800000 1709496000000
   \<and> \<not> isActiveOn 19800000 (exampleSchedule\<lparr> effectiveStartDate := 1709510400000 \<rparr>) 1709496000000"
  by (simp add: isActiveOn_def scheduleEvents_def exampleSchedule_def date_defs)

text \<open>
  C3, amended: for a schedule that is not cancelled and a target instant \<open>d\<close> that is not
  earlier than \<open>effectiveStartDate\<close> and, when \<open>effectiveEndDate\<close> is present, not later
  than it, the instants compared to the millisecond, \<open>isActiveOn\<close> is
  \<open>runningDays[dayOfWeek(d)]\<close>, where the day of the week is the platform's \<open>getDay\<close>
  (Sunday = 0) converted to Monday = 0 ... Sunday = 6.
\<close>

theorem isActiveOn_runningDays_in_window:
  assumes "\<not> isCancelled s"
    and "effectiveStartDate s \<le> d"
    and "case effectiveEndDate s of None \<Rightarrow> True | Some e \<Rightarrow> d \<le> e"
  shows "isActiveOn tz s d = truthyAt (runningDays s) (currentDayOfWeek tz d)
     \<and> currentDayOfWeek tz d = (if getDay tz d = 0 then 6 else getDay tz d - 1)
     \<and> currentDayOfWeek tz d < 7
     \<and> (length (runningDays s) = 7 \<longrightarrow>
          isActiveOn tz s d = runningDays s ! currentDayOfWeek tz d)"
proof -
  have active: "isActiveOn tz s d = truthyAt (runningDays s) (currentDayOfWeek tz d)"
    using assms(2,3) by (auto simp: isActiveOn_def scheduleEvents_Nil split: option.splits)
  have monday0: "currentDayOfWeek tz d = (if getDay tz d = 0 then 6 else getDay tz d - 1)"
    using getDay_less_7 [of tz d] unfolding currentDayOfWeek_def by presburger
  have range: "currentDayOfWeek tz d < 7"
    by (simp add: currentDayOfWeek_def)
  show ?thesis using active monday0 range by (simp add: truthyAt_def)
qed

text \<open>
  The specification's example: active on Monday 2024-03-04, inactive on Tuesday
  2024-03-05 (at 08:00Z, 1709625600000).
\<close>

theorem isActiveOn_runningDays_in_window_witness:
  "currentDayOfWeek 0 1709539200000 = 0
   \<and> isActiveOn 0 exampleSchedule 1709539200000 = runningDays exampleSchedule ! 0
   \<and> isActiveOn 0 exampleSchedule 1709539200000
   \<and> currentDayOfWeek 0 1709625600000 = 1
   \<and> \<not> isActiveOn 0 exampleSchedule 1709625600000"
proof -
  have monday: "currentDayOfWeek 0 1709539200000 = 0"
    and tuesday: "currentDayOfWeek 0 1709625600000 = 1"
    by (simp_all add: date_defs)
  have ex: "\<not> isCancelled exampleSchedule" "effectiveStartDate exampleSchedule = 1709251200000"
    "effectiveEndDate exampleSchedule = None"
    "runningDays exampleSchedule = [True, False, False, False, False, False, False]"
    by (simp_all add: exampleSchedule_def)
  from isActiveOn_runningDays_in_window [where tz = 0 and s = exampleSchedule and d = 1709539200000]
  have a: "isActiveOn 0 exampleSchedule 1709539200000 = runningDays exampleSchedule ! 0"
    by (simp add: ex monday truthyAt_def)
  from isActiveOn_runningDays_in_window [where tz = 0 and s = exampleSchedule and d = 1709625600000]
  have b: "\<not> isActiveOn 0 exampleSchedule 1709625600000"
    by (simp add: ex tuesday truthyAt_def)
  from a have c: "isActiveOn 0 exampleSchedule 1709539200000" by (simp add: ex)
  show ?thesis using monday tuesday a b c by simp
qed

text \<open>
  C4: \<open>isActiveOn\<close> is false for every target date before \<open>effectiveStartDate\<close> and, when
  \<open>effectiveEndDate\<close> is present, for every target date after it, the dates compared as
  calendar days with the time of day of the timestamps ignored (the third and fourth
  case below).  It is false as well for every target instant that is earlier than
  \<open>effectiveStartDate\<close> or later than \<open>effectiveEndDate\<close> on the same day (the first and
  second case).
\<close>

theorem isActiveOn_outside_window:
  assumes "d < effectiveStartDate s
           \<or> (\<exists>e. effectiveEndDate s = Some e \<and> e < d)
           \<or> localDay tz d < localDay tz (effectiveStartDate s)
           \<or> (\<exists>e. effectiveEndDate s = Some e \<and> localDay tz e < localDay tz d)"
  shows "\<not> isActiveOn tz s d"
  using assms by (auto simp: isActiveOn_def scheduleEvents_Nil dest: localDay_less)

text \<open>
  Two Mondays, on which the example schedule runs: 2024-02-26T08:00Z (1708934400000),
  before the start date 2024-03-01, and 2024-03-11T08:00Z (1710144000000), after the end
  date 2024-03-10 of the example given that end date.
\<close>

theorem isActiveOn_outside_window_witness:
  "localDay 0 1708934400000 < localDay 0 (effectiveStartDate exampleSchedule)
   \<and> runningDays exampleSchedule ! currentDayOfWeek 0 1708934400000
   \<and> \<not> isActiveOn 0 exampleSchedule 1708934400000
   \<and> localDay 0 1710028800000 < localDay 0 1710144000000
   \<and> runningDays exampleSchedule ! currentDayOfWeek 0 1710144000000
   \<and> \<not> isActiveOn 0 (exampleSchedule\<lparr> effectiveEndDate := Some 1710028800000 \<rparr>) 1710144000000"
proof -
  have days: "localDay 0 1708934400000 < localDay 0 (effectiveStartDate exampleSchedule)"
    "localDay 0 1710028800000 < localDay 0 1710144000000"
    by (simp_all add: exampleSchedule_def localDay_def msPerDay_def)
  have running: "runningDays exampleSchedule ! currentDayOfWeek 0 1708934400000"
    "runningDays exampleSchedule ! currentDayOfWeek 0 1710144000000"
    by (simp_all add: exampleSchedule_def date_defs)
  from isActiveOn_outside_window [where tz = 0 and s = exampleSchedule and d = 1708934400000] days(1)
  have before: "\<not> isActiveOn 0 exampleSchedule 1708934400000"
    by blast
  from isActiveOn_outside_window
    [where tz = 0 and s = "exampleSchedule\<lparr> effectiveEndDate := Some 1710028800000 \<rparr>"
       and d = 1710144000000] days(2)
  have after: "\<not> isActiveOn 0 (exampleSchedule\<lparr> effectiveEndDate := Some 1710028800000 \<rparr>) 1710144000000"
    by simp
  show ?thesis using days running before after by simp
qed

section \<open>The create-schedule handler\<close>

lemma replicate_7: "replicate 7 x = [x, x, x, x, x, x, x]"
  by (simp add: eval_nat_numeral)

lemma scheduleSchema_Inr:
  assumes "scheduleSchema dp b = Inr d"
  shows "objectValue dp b = Some d" and "objectIssues dp b = []"
    and "refineDetachTime d = []" and "refineAttachTime d = []"
  using assms by (auto simp: scheduleSchema_def Let_def split: option.splits if_splits)

lemma objectValue_fields:
  assumes "objectValue dp b = Some d"
  shows "snd (fRunningDays b) = Some (runningDays d)"
    and "snd (fAttachTrainNumber b) = Some (attachTrainNumber d)"
  using assms by (auto simp: objectValue_def bind_eq_Some_conv)

lemma zItems_replicate:
  "zItems zBoolean p i (replicate n (JBool v)) = ([], Some (replicate n v))"
  by (induction n arbitrary: i) (simp_all add: zBoolean_def)

lemma fRunningDays_default:
  "b ''runningDays'' = None \<Longrightarrow> fRunningDays b = ([], Some (replicate 7 True))"
  by (simp add: fRunningDays_def zDefault_def zArray_def zItems_replicate)

lemma fAttachTrainNumber_value:
  "snd (fAttachTrainNumber b) = Some v \<Longrightarrow>
     v = (case b ''attachTrainNumber'' of Some (JStr s) \<Rightarrow> Some s | _ \<Rightarrow> None)"
  by (auto simp: fAttachTrainNumber_def zNullableOptional_def zString_def
      split: option.splits json.splits)

lemma specialOperations_not_Success: "specialOperations db t d \<noteq> Some (Success r)"
  by (simp add: specialOperations_def attachValidation_def detachValidation_def
      split: option.splits)

lemma insertSchedule_Some:
  assumes "insertSchedule db d = Some (row, db')"
  shows "row = scheduleData.extend
                 (d\<lparr> importantStations :=
                      (case importantStations d of None \<Rightarrow> Some [] | Some l \<Rightarrow> Some l) \<rparr>)
                 (schedule.fields (nextId db) None None None None None None)"
    and "schedules db' = schedules db @ [row]"
  using assms by (auto simp: insertSchedule_def Let_def split: if_splits)

lemma postSchedules_Success:
  assumes "postSchedules dp db b = (Success r, db')"
  shows "\<exists>d t. scheduleSchema dp b = Inr d \<and> trains db (trainId d) = Some t
           \<and> specialOperations db t d = None
           \<and> attachStatus r = (if truthyString (attachTrainNumber d) then Some ''pending'' else None)
           \<and> attachTrainNumber r = attachTrainNumber d
           \<and> runningDays r = runningDays d
           \<and> schedules db' = schedules db @ [schedule.truncate r]"
proof -
  from assms obtain d where d: "scheduleSchema dp b = Inr d"
    by (auto simp: postSchedules_def split: sum.splits)
  from assms d obtain t where t: "trains db (trainId d) = Some t"
    by (auto simp: postSchedules_def split: option.splits)
  from assms d t have s: "specialOperations db t d = None"
    by (auto simp: postSchedules_def specialOperations_not_Success split: option.splits)
  let ?sd = "d\<lparr> attachStatus :=
                 (if truthyString (attachTrainNumber d) then Some ''pending'' else None) \<rparr>"
  from assms d t s obtain row where
    i: "insertSchedule db ?sd = Some (row, db')"
    and r: "r = schedule.extend row (scheduleWithTrain.fields (Some t))"
    by (auto simp: postSchedules_def Let_def split: option.splits)
  note ins = insertSchedule_Some [OF i]
  have "schedule.truncate r = row"
    by (simp add: r ins(1) schedule.defs scheduleData.defs scheduleWithTrain.defs)
  moreover have "attachStatus r = attachStatus ?sd" "attachTrainNumber r = attachTrainNumber d"
    "runningDays r = runningDays d"
    by (simp_all add: r ins(1) schedule.defs scheduleData.defs scheduleWithTrain.defs)
  ultimately show ?thesis using d t s ins(2) by simp
qed

text \<open>
  C2: the handler misses the check.  A body whose \<open>scheduledArrival\<close> (2024-03-04T07:00Z)
  is one hour before its \<open>scheduledDeparture\<close> (08:00Z) is accepted and the row is stored.
\<close>

theorem postSchedules_accepts_arrival_before_departure:
  "postSchedules noDateParse exampleDb (exampleBody(''scheduledArrival'' \<mapsto> JNum 1709535600000)) =
     (Success (exampleSchedule\<lparr> scheduledArrival := 1709535600000, train := Some express12301 \<rparr>),
      exampleDb\<lparr> schedules := [schedule.truncate (exampleSchedule\<lparr> scheduledArrival := 1709535600000 \<rparr>)],
                 nextId := 2 \<rparr>)"
  by (simp add: schema_defs handler_defs example_defs)

theorem postSchedules_accepts_arrival_before_departure_witness:
  "scheduledArrival (exampleSchedule\<lparr> scheduledArrival := 1709535600000 \<rparr>)
     < scheduledDeparture (exampleSchedule\<lparr> scheduledArrival := 1709535600000 \<rparr>)
   \<and> length (schedules (snd (postSchedules noDateParse exampleDb
        (exampleBody(''scheduledArrival'' \<mapsto> JNum 1709535600000))))) = 1"
  using postSchedules_accepts_arrival_before_departure
  by (simp add: exampleSchedule_def)

text \<open>
  C5: the gate for the other train types misses two of the five fields.  For the
  express train, a body whose only attach/detach field is \<open>attachTime\<close>
  (2024-03-04T10:00Z) is accepted and the row is stored with that attach time.
\<close>

theorem postSchedules_accepts_attachTime_for_express:
  "postSchedules noDateParse exampleDb (exampleBody(''attachTime'' \<mapsto> JNum 1709546400000)) =
     (Success (exampleSchedule\<lparr> attachTime := Some 1709546400000, train := Some express12301 \<rparr>),
      exampleDb\<lparr> schedules := [schedule.truncate (exampleSchedule\<lparr> attachTime := Some 1709546400000 \<rparr>)],
                 nextId := 2 \<rparr>)"
  by (simp add: schema_defs handler_defs example_defs)

theorem postSchedules_accepts_attachTime_for_express_witness:
  "type' express12301 = Express
   \<and> attachTime (exampleSchedule\<lparr> attachTime := Some 1709546400000 \<rparr>) = Some 1709546400000
   \<and> length (schedules (snd (postSchedules noDateParse exampleDb
        (exampleBody(''attachTime'' \<mapsto> JNum 1709546400000))))) = 1"
  using postSchedules_accepts_attachTime_for_express
  by (simp add: express12301_def)





text \<open>
  C7: the handler of the \<open>updateSchedule\<close> event misses the guard.  For the example
  schedule stored with status \<open>completed\<close>, the event \<open>{id: 1, status: "running"}\<close> is
  applied: the row is written with status \<open>running\<close> and broadcast, and no error is
  returned.
\<close>

theorem updateSchedule_completed_to_running:
  "status (schedule.truncate (exampleSchedule\<lparr> status := ''completed'' \<rparr>)) = ''completed''
   \<and> updateSchedule noDateParse
        (exampleDb\<lparr> schedules := [schedule.truncate (exampleSchedule\<lparr> status := ''completed'' \<rparr>)] \<rparr>)
        (statusOnly 1 ''running'') =
     (Some (schedule.truncate (exampleSchedule\<lparr> status := ''running'' \<rparr>)),
      exampleDb\<lparr> schedules := [schedule.truncate (exampleSchedule\<lparr> status := ''running'' \<rparr>)] \<rparr>)"
  by (simp add: updateSchedule_def setValues_def dateOrNull_def setOrKeep_def rowAllowed_def
      references_def timeInRange_def statusOnly_def example_defs schedule.defs)

theorem updateSchedule_completed_to_running_witness:
  "map status
     (schedules (snd (updateSchedule noDateParse
        (exampleDb\<lparr> schedules := [schedule.truncate (exampleSchedule\<lparr> status := ''completed'' \<rparr>)] \<rparr>)
        (statusOnly 1 ''running'')))) = [''running'']"
  using updateSchedule_completed_to_running
  by (simp add: exampleSchedule_def schedule.defs)

text \<open>
  The handler in general does not read the current status.  For every stored schedule,
  whatever its status, and every new status, the event that carries the schedule's id
  and the new status is applied: every row with that id gets the new status (and NULL
  for the four times the event did not carry), the first such row is broadcast, and no
  error is returned.  (The rows' detach locations are assumed to exist, as the table's
  foreign key makes them.)  The client does guard: the status buttons act on a schedule
  that is neither cancelled nor completed.
\<close>

theorem updateSchedule_applies_any_status:
  assumes "r \<in> set (schedules db)"
    and "list_all (\<lambda>x. references db (detachLocationId x)) (schedules db)"
  shows "(\<exists>r'. updateSchedule dp db (statusOnly (id' r) newStatus) =
            (Some r',
             db\<lparr> schedules :=
                   map (\<lambda>x. if id' x = id' r
                             then x\<lparr> status := newStatus, actualDeparture := None,
                                     actualArrival := None, attachTime := None,
                                     detachTime := None \<rparr>
                             else x) (schedules db) \<rparr>)
          \<and> status r' = newStatus \<and> id' r' = id' r)
     \<and> (selectedSchedule ss = Some s \<longrightarrow> \<not> isCancelled s \<and> status s \<noteq> ''completed'')"
proof -
  let ?f = "\<lambda>x::schedule. x\<lparr> status := newStatus, actualDeparture := None, actualArrival := None,
                              attachTime := None, detachTime := None \<rparr>"
  have sv: "setValues dp (statusOnly (id' r) newStatus) = Some ?f"
    by (simp add: setValues_def dateOrNull_def setOrKeep_def statusOnly_def)
  have allowed: "rowAllowed db (?f x)" if "x \<in> set (schedules db)" for x
    using assms(2) that by (simp add: rowAllowed_def timeInRange_def list_all_iff)
  then have all: "list_all (rowAllowed db) (map ?f (filter (\<lambda>x. id' x = id' r) (schedules db)))"
    by (simp add: list_all_iff)
  from assms(1) have "r \<in> set (filter (\<lambda>x. id' x = id' r) (schedules db))"
    by simp
  then obtain u us where us: "filter (\<lambda>x. id' x = id' r) (schedules db) = u # us"
    by (cases "filter (\<lambda>x. id' x = id' r) (schedules db)") auto
  then have "u \<in> set (filter (\<lambda>x. id' x = id' r) (schedules db))"
    by simp
  then have u: "id' u = id' r"
    by simp
  have did: "dataId (statusOnly (id' r) newStatus) = id' r"
    by (simp add: statusOnly_def)
  have upd: "updateSchedule dp db (statusOnly (id' r) newStatus) =
      (Some (?f u),
       db\<lparr> schedules := map (\<lambda>x. if id' x = id' r then ?f x else x) (schedules db) \<rparr>)"
    using all us by (simp add: updateSchedule_def sv Let_def did)
  have sel: "\<not> isCancelled s \<and> status s \<noteq> ''completed''" if "selectedSchedule ss = Some s"
    using that by (auto simp: selectedSchedule_def find_Some_iff)
  show ?thesis using upd u sel by simp
qed

theorem updateSchedule_applies_any_status_witness:
  "(\<exists>r'. updateSchedule noDateParse
            (exampleDb\<lparr> schedules := [schedule.truncate (exampleSchedule\<lparr> status := ''completed'' \<rparr>)] \<rparr>)
            (statusOnly 1 ''scheduled'') =
            (Some r',
             exampleDb\<lparr> schedules := [schedule.truncate (exampleSchedule\<lparr> status := ''scheduled'' \<rparr>)] \<rparr>)
          \<and> status r' = ''scheduled'' \<and> id' r' = 1)
   \<and> selectedSchedule [schedule.truncate (exampleSchedule\<lparr> status := ''completed'' \<rparr>),
                        schedule.truncate exampleSchedule]
       = Some (schedule.truncate exampleSchedule)"
proof -
  let ?r = "schedule.truncate (exampleSchedule\<lparr> status := ''completed'' \<rparr>)"
  let ?db = "exampleDb\<lparr> schedules := [?r] \<rparr>"
  have a: "\<exists>r'. updateSchedule noDateParse ?db (statusOnly 1 ''scheduled'') =
            (Some r', exampleDb\<lparr> schedules := [schedule.truncate (exampleSchedule\<lparr> status := ''scheduled'' \<rparr>)] \<rparr>)
          \<and> status r' = ''scheduled'' \<and> id' r' = 1"
    using updateSchedule_applies_any_status
      [where r = ?r and db = ?db and dp = noDateParse and newStatus = "''scheduled''",
        THEN conjunct1]
    by (simp add: references_def exampleSchedule_def schedule.defs)
  have b: "selectedSchedule [?r, schedule.truncate exampleSchedule] = Some (schedule.truncate exampleSchedule)"
    by (simp add: selectedSchedule_def exampleSchedule_def schedule.defs)
  show ?thesis using a b by simp
qed

text \<open>
  C8, as claimed, fails: a body whose departure and arrival location are both location 1
  is accepted and the row is stored.
\<close>

theorem postSchedules_accepts_same_location:
  "postSchedules noDateParse exampleDb (exampleBody(''arrivalLocationId'' \<mapsto> JNum 1)) =
     (Success (exampleSchedule\<lparr> arrivalLocationId := 1, train := Some express12301 \<rparr>),
      exampleDb\<lparr> schedules := [schedule.truncate (exampleSchedule\<lparr> arrivalLocationId := 1 \<rparr>)],
                 nextId := 2 \<rparr>)
   \<and> departureLocationId (exampleSchedule\<lparr> arrivalLocationId := 1 \<rparr>)
       = arrivalLocationId (exampleSchedule\<lparr> arrivalLocationId := 1 \<rparr>)"
  by (simp add: schema_defs handler_defs example_defs)

text \<open>
  C8, amended: the two location references are required, each a number of at least 1.  A
  body in which \<open>departureLocationId\<close> or \<open>arrivalLocationId\<close> is absent, not a number or
  less than 1 is rejected with status 400, "Invalid schedule data", and nothing is stored.
  The handler does not compare the two.
\<close>

theorem postSchedules_requires_location_ids:
  assumes "\<not> (\<exists>n. b ''departureLocationId'' = Some (JNum n) \<and> 1 \<le> n)
         \<or> \<not> (\<exists>n. b ''arrivalLocationId'' = Some (JNum n) \<and> 1 \<le> n)"
  shows "\<exists>issues. postSchedules dp db b = (InvalidScheduleData issues, db) \<and> issues \<noteq> []"
proof -
  have "fst (fDepartureLocationId b) \<noteq> [] \<or> fst (fArrivalLocationId b) \<noteq> []"
    using assms
    by (auto simp: fDepartureLocationId_def fArrivalLocationId_def zMin_def zNumber_def
        split: option.splits json.splits)
  then have "objectIssues dp b \<noteq> []"
    by (auto simp: objectIssues_def)
  then have "\<exists>issues. scheduleSchema dp b = Inl issues \<and> issues \<noteq> []"
    by (auto simp: scheduleSchema_def Let_def split: option.splits)
  then show ?thesis
    by (auto simp: postSchedules_def)
qed

theorem postSchedules_requires_location_ids_witness:
  "\<exists>issues. postSchedules noDateParse exampleDb (exampleBody(''arrivalLocationId'' := None))
       = (InvalidScheduleData issues, exampleDb) \<and> issues \<noteq> []"
  using postSchedules_requires_location_ids
    [where b = "exampleBody(''arrivalLocationId'' := None)" and dp = noDateParse and db = exampleDb]
  by simp

text \<open>
  C9: for every accepted request, the stored row's \<open>attachStatus\<close> is \<open>pending\<close> when the
  body's \<open>attachTrainNumber\<close> is a non-empty string and null otherwise, whatever
  \<open>attachStatus\<close> the body carries; the row is the one appended to the table.
\<close>

theorem postSchedules_attachStatus:
  assumes "postSchedules dp db b = (Success r, db')"
  shows "attachStatus r =
           (if (\<exists>s. b ''attachTrainNumber'' = Some (JStr s) \<and> s \<noteq> [])
            then Some ''pending'' else None)
         \<and> schedules db' = schedules db @ [schedule.truncate r]"
proof -
  from postSchedules_Success [OF assms] obtain d where
    d: "scheduleSchema dp b = Inr d"
    and a: "attachStatus r = (if truthyString (attachTrainNumber d) then Some ''pending'' else None)"
    and s: "schedules db' = schedules db @ [schedule.truncate r]"
    by blast
  have "attachTrainNumber d = (case b ''attachTrainNumber'' of Some (JStr s) \<Rightarrow> Some s | _ \<Rightarrow> None)"
    using objectValue_fields(2) [OF scheduleSchema_Inr(1) [OF d]]
    by (rule fAttachTrainNumber_value)
  then have "truthyString (attachTrainNumber d)
      = (\<exists>s. b ''attachTrainNumber'' = Some (JStr s) \<and> s \<noteq> [])"
    by (auto simp: truthyString_def split: option.splits json.splits)
  with a s show ?thesis by simp
qed

text \<open>
  The FTR request completed with the attach train number 12302, sent with
  \<open>attachStatus = completed\<close>: the stored status is \<open>pending\<close>.
\<close>

theorem postSchedules_attachStatus_witness:
  "(ftrBody(''attachTrainNumber'' \<mapsto> JStr ''12302'', ''attachStatus'' \<mapsto> JStr ''completed''))
      ''attachStatus'' = Some (JStr ''completed'')
   \<and> (\<exists>r db'. postSchedules noDateParse exampleDb
          (ftrBody(''attachTrainNumber'' \<mapsto> JStr ''12302'', ''attachStatus'' \<mapsto> JStr ''completed''))
          = (Success r, db')
        \<and> attachStatus r = Some ''pending'' \<and> schedules db' = [schedule.truncate r])"
proof -
  let ?b = "ftrBody(''attachTrainNumber'' \<mapsto> JStr ''12302'', ''attachStatus'' \<mapsto> JStr ''completed'')"
  have "\<exists>r db'. postSchedules noDateParse exampleDb ?b = (Success r, db')"
    by (simp add: schema_defs handler_defs example_defs)
  then obtain r db' where p: "postSchedules noDateParse exampleDb ?b = (Success r, db')"
    by blast
  from postSchedules_attachStatus [OF p]
  have "attachStatus r = Some ''pending'' \<and> schedules db' = [schedule.truncate r]"
    by (simp add: exampleDb_def)
  with p show ?thesis by auto
qed

text \<open>
  C10: when the body omits \<open>runningDays\<close>, the field parses without an issue to seven
  entries, all true, and so does the field of every validated candidate; when the
  request is accepted, the table grows by exactly one row and that row's \<open>runningDays\<close>
  is seven entries, all true.
\<close>

theorem runningDays_default:
  assumes "b ''runningDays'' = None"
  shows "fRunningDays b = ([], Some [True, True, True, True, True, True, True])
     \<and> (\<forall>d. scheduleSchema dp b = Inr d \<longrightarrow>
            length (runningDays d) = 7 \<and> runningDays d = [True, True, True, True, True, True, True])
     \<and> (\<forall>r db'. postSchedules dp db b = (Success r, db') \<longrightarrow>
            length (runningDays r) = 7 \<and> runningDays r = [True, True, True, True, True, True, True]
            \<and> (\<exists>row. schedules db' = schedules db @ [row]
                  \<and> length (runningDays row) = 7
                  \<and> runningDays row = [True, True, True, True, True, True, True]))"
proof -
  have f: "fRunningDays b = ([], Some (replicate 7 True))"
    using assms by (rule fRunningDays_default)
  have p: "runningDays d = replicate 7 True" if "scheduleSchema dp b = Inr d" for d
    using objectValue_fields(1) [OF scheduleSchema_Inr(1) [OF that]] f by simp
  have s: "length (runningDays r) = 7 \<and> runningDays r = [True, True, True, True, True, True, True]
      \<and> (\<exists>row. schedules db' = schedules db @ [row]
            \<and> length (runningDays row) = 7
            \<and> runningDays row = [True, True, True, True, True, True, True])"
    if acc: "postSchedules dp db b = (Success r, db')" for r db'
  proof -
    from postSchedules_Success [OF acc] obtain d where
      d: "scheduleSchema dp b = Inr d" and rd: "runningDays r = runningDays d"
      and st: "schedules db' = schedules db @ [schedule.truncate r]"
      by blast
    have r7: "runningDays r = [True, True, True, True, True, True, True]"
      using p [OF d] rd by (simp add: replicate_7)
    have "runningDays (schedule.truncate r) = runningDays r"
      by (simp add: schedule.defs)
    with r7 st show ?thesis by simp
  qed
  have f7: "fRunningDays b = ([], Some [True, True, True, True, True, True, True])"
    using f by (simp add: replicate_7)
  have p7: "length (runningDays d) = 7 \<and> runningDays d = [True, True, True, True, True, True, True]"
    if "scheduleSchema dp b = Inr d" for d
    using p [OF that] by (simp add: replicate_7)
  show ?thesis using f7 p7 s by blast
qed

text \<open>
  The example request without \<open>runningDays\<close>: the stored table is the one row of the
  example schedule with all seven days running.
\<close>

theorem runningDays_default_witness:
  "(exampleBody(''runningDays'' := None)) ''runningDays'' = None
   \<and> schedules (snd (postSchedules noDateParse exampleDb (exampleBody(''runningDays'' := None))))
       = [schedule.truncate
            (exampleSchedule\<lparr> runningDays := [True, True, True, True, True, True, True] \<rparr>)]
   \<and> (\<exists>r db' row. postSchedules noDateParse exampleDb (exampleBody(''runningDays'' := None)) = (Success r, db')
         \<and> schedules db' = schedules exampleDb @ [row]
         \<and> runningDays row = [True, True, True, True, True, True, True])"
proof -
  let ?b = "exampleBody(''runningDays'' := None)"
  have n: "?b ''runningDays'' = None" by simp
  have stored: "schedules (snd (postSchedules noDateParse exampleDb ?b))
       = [schedule.truncate
            (exampleSchedule\<lparr> runningDays := [True, True, True, True, True, True, True] \<rparr>)]"
    by (simp add: schema_defs handler_defs example_defs replicate_7)
  have "\<exists>r db'. postSchedules noDateParse exampleDb ?b = (Success r, db')"
    by (simp add: schema_defs handler_defs example_defs replicate_7)
  then obtain r db' where acc: "postSchedules noDateParse exampleDb ?b = (Success r, db')"
    by blast
  from runningDays_default [where b = ?b and dp = noDateParse and db = exampleDb] n acc
  obtain row where "schedules db' = schedules exampleDb @ [row]"
    and "runningDays row = [True, True, True, True, True, True, True]"
    by blast
  with acc n stored show ?thesis by blast
qed

end
